theory Spec2Isabelle
  imports Complex_Main
begin

section \<open>Outcomes of a call\<close>

text \<open>
  Every fallible Go function of the repository returns a pair (value, error); besides
  that, a call can panic. The three outcomes are kept apart. An error value built by
  \<^verbatim>\<open>fmt.Errorf\<close> is identified by the call site that builds it, together with the
  value that is formatted into the message.
\<close>

datatype error =
    InvalidInputVector      \<comment> \<open>"Invalid input vector"\<close>
  | InvalidStateVector      \<comment> \<open>"Invalid state vector"\<close>
  | InvalidSamples int      \<comment> \<open>"Invalid number of samples requested: %d"\<close>
  | SVDFailed               \<comment> \<open>"SVD factorization failed"\<close>
  | InvalidWeights "real list"  \<comment> \<open>"Invalid probability weights: %v"\<close>

datatype panic =
    NilDereference          \<comment> \<open>method call or field read through a nil pointer or nil interface\<close>
  | ErrShape                \<comment> \<open>gonum: dimension mismatch\<close>
  | ErrZeroLength           \<comment> \<open>gonum: zero length in matrix dimension\<close>
  | ErrColAccess            \<comment> \<open>gonum: column index out of range\<close>
  | MakesliceLen            \<comment> \<open>runtime: makeslice: len out of range\<close>
  | OutOfMemory             \<comment> \<open>runtime: out of memory (a fatal error of the allocator)\<close>

datatype 'a result = Returns 'a | Fails error | Panics panic

definition rbind :: "'a result \<Rightarrow> ('a \<Rightarrow> 'b result) \<Rightarrow> 'b result" where
  "rbind r f = (case r of Returns v \<Rightarrow> f v | Fails e \<Rightarrow> Fails e | Panics p \<Rightarrow> Panics p)"

section \<open>Dense matrices and vectors of gonum\<close>

text \<open>
  \<^verbatim>\<open>mat.Dense\<close> is a row-major array with its two dimensions. The entries are
  \<^verbatim>\<open>float64\<close> in the source and real numbers here. A \<^verbatim>\<open>*mat.Dense\<close> that may be nil
  is a \<open>Dense option\<close>, a \<^verbatim>\<open>mat.Vector\<close> interface value that may be nil is a
  \<open>real list option\<close>. The operations of the library used by the repository follow the
  library's documented contract: \<^verbatim>\<open>Mul\<close> and \<^verbatim>\<open>Add\<close> panic with ErrShape on
  mismatching dimensions, a matrix with a zero dimension cannot be allocated, and
  \<^verbatim>\<open>ColView\<close> panics outside the columns.
\<close>

record Dense =
  Rows :: nat
  Cols :: nat
  Data :: "real list"

definition At :: "Dense \<Rightarrow> nat \<Rightarrow> nat \<Rightarrow> real" where
  "At m i j = Data m ! (i * Cols m + j)"

definition Dense_Dims :: "Dense option \<Rightarrow> (nat \<times> nat) result" where
  "Dense_Dims m = (case m of None \<Rightarrow> Panics NilDereference | Some d \<Rightarrow> Returns (Rows d, Cols d))"

text \<open>A vector of length \<open>n\<close> seen through the Matrix interface has dimensions \<open>n \<times> 1\<close>.\<close>

definition as_matrix :: "real list \<Rightarrow> Dense" where
  "as_matrix xs = \<lparr>Rows = length xs, Cols = 1, Data = xs\<rparr>"

definition dot :: "Dense \<Rightarrow> Dense \<Rightarrow> nat \<Rightarrow> nat \<Rightarrow> real" where
  "dot a b i j = sum_list (map (\<lambda>k. At a i k * At b k j) [0..<Cols a])"

text \<open>\<^verbatim>\<open>m.Mul(a, b)\<close> into an empty receiver \<^verbatim>\<open>new(mat.Dense)\<close>.\<close>

definition Mul :: "Dense \<Rightarrow> Dense \<Rightarrow> Dense result" where
  "Mul a b =
     (if Cols a \<noteq> Rows b then Panics ErrShape
      else if Rows a = 0 \<or> Cols b = 0 then Panics ErrZeroLength
      else Returns \<lparr>Rows = Rows a, Cols = Cols b,
             Data = concat (map (\<lambda>i. map (\<lambda>j. dot a b i j) [0..<Cols b]) [0..<Rows a])\<rparr>)"

text \<open>
  \<^verbatim>\<open>m.Mul(a, b)\<close> where \<open>a\<close> is a \<^verbatim>\<open>*mat.Dense\<close> field: a nil pointer panics
  when the library asks it for its dimensions.
\<close>

definition Mul_ptr :: "Dense option \<Rightarrow> Dense \<Rightarrow> Dense result" where
  "Mul_ptr m b = (case m of None \<Rightarrow> Panics NilDereference | Some md \<Rightarrow> Mul md b)"

text \<open>\<^verbatim>\<open>m.Mul(a, b)\<close> into a receiver \<open>m\<close> that already has dimensions.\<close>

definition MulInto :: "Dense \<Rightarrow> Dense \<Rightarrow> Dense \<Rightarrow> Dense result" where
  "MulInto m a b =
     (if Cols a \<noteq> Rows b then Panics ErrShape
      else if Rows m \<noteq> Rows a \<or> Cols m \<noteq> Cols b then Panics ErrShape
      else Returns \<lparr>Rows = Rows a, Cols = Cols b,
             Data = concat (map (\<lambda>i. map (\<lambda>j. dot a b i j) [0..<Cols b]) [0..<Rows a])\<rparr>)"

text \<open>\<^verbatim>\<open>a.Add(a, b)\<close>: the receiver is the first operand.\<close>

definition Add :: "Dense \<Rightarrow> Dense \<Rightarrow> Dense result" where
  "Add a b =
     (if Rows a \<noteq> Rows b \<or> Cols a \<noteq> Cols b then Panics ErrShape
      else Returns \<lparr>Rows = Rows a, Cols = Cols a,
             Data = concat (map (\<lambda>i. map (\<lambda>j. At a i j + At b i j) [0..<Cols a]) [0..<Rows a])\<rparr>)"

definition ColView :: "Dense \<Rightarrow> nat \<Rightarrow> real list result" where
  "ColView m j =
     (if Cols m \<le> j then Panics ErrColAccess
      else Returns (map (\<lambda>i. At m i j) [0..<Rows m]))"

text \<open>\<^verbatim>\<open>v.Len()\<close> on a \<^verbatim>\<open>mat.Vector\<close> interface value.\<close>

definition Len :: "real list option \<Rightarrow> nat result" where
  "Len v = (case v of None \<Rightarrow> Panics NilDereference | Some xs \<Rightarrow> Returns (length xs))"

section \<open>Package sim: BaseModel\<close>

text \<open>The fields A, B, C, D of the struct are \<open>bA\<close>, \<open>bB\<close>, \<open>bC\<close>, \<open>bD\<close>.\<close>

record BaseModel =
  bA :: "Dense option"
  bB :: "Dense option"
  bC :: "Dense option"
  bD :: "Dense option"

definition NewBaseModel ::
  "Dense option \<Rightarrow> Dense option \<Rightarrow> Dense option \<Rightarrow> Dense option \<Rightarrow> BaseModel result" where
  "NewBaseModel a b c d = Returns \<lparr>bA = a, bB = b, bC = c, bD = d\<rparr>"

definition BaseModel_Dims :: "BaseModel \<Rightarrow> (nat \<times> nat) result" where
  "BaseModel_Dims b =
     rbind (Dense_Dims (bA b)) (\<lambda>(_, n_in).
     rbind (Dense_Dims (bC b)) (\<lambda>(out, _).
     Returns (n_in, out)))"

text \<open>
  The two optional terms of \<^verbatim>\<open>Propagate\<close> and \<^verbatim>\<open>Observe\<close>: the control term
  \<open>M\<cdot>u\<close>, added when both \<open>u\<close> and the matrix are present, and the noise term, added
  when present and of the expected length.
\<close>

definition add_control :: "Dense option \<Rightarrow> real list option \<Rightarrow> Dense \<Rightarrow> Dense result" where
  "add_control m u out =
     (case (u, m) of
        (Some uv, Some md) \<Rightarrow> rbind (Mul md (as_matrix uv)) (\<lambda>outU. Add out outU)
      | _ \<Rightarrow> Returns out)"

definition add_noise :: "real list option \<Rightarrow> nat \<Rightarrow> Dense \<Rightarrow> Dense result" where
  "add_noise q n out =
     (case q of
        Some qv \<Rightarrow> if length qv = n then Add out (as_matrix qv) else Returns out
      | None \<Rightarrow> Returns out)"

definition BaseModel_Propagate ::
  "BaseModel \<Rightarrow> real list option \<Rightarrow> real list option \<Rightarrow> real list option \<Rightarrow> real list result" where
  "BaseModel_Propagate b x u q =
     rbind (BaseModel_Dims b) (\<lambda>(n_in, n_out).
     if u \<noteq> None \<and> Len u \<noteq> Returns n_out then Fails InvalidInputVector
     else rbind (Len x) (\<lambda>xl.
       if xl \<noteq> n_in then Fails InvalidStateVector
       else rbind (Mul_ptr (bA b) (as_matrix (the x))) (\<lambda>out.
            rbind (add_control (bB b) u out) (\<lambda>out.
            rbind (add_noise q n_in out) (\<lambda>out.
            ColView out 0)))))"

definition BaseModel_Observe ::
  "BaseModel \<Rightarrow> real list option \<Rightarrow> real list option \<Rightarrow> real list option \<Rightarrow> real list result" where
  "BaseModel_Observe b x u r =
     rbind (BaseModel_Dims b) (\<lambda>(n_in, n_out).
     if u \<noteq> None \<and> Len u \<noteq> Returns n_out then Fails InvalidInputVector
     else rbind (Len x) (\<lambda>xl.
       if xl \<noteq> n_in then Fails InvalidStateVector
       else rbind (Mul_ptr (bC b) (as_matrix (the x))) (\<lambda>out.
            rbind (add_control (bD b) u out) (\<lambda>out.
            rbind (add_noise r n_out out) (\<lambda>out.
            ColView out 0)))))"

section \<open>Package model: Fall\<close>

record Fall =
  fA :: "Dense option"
  fB :: "Dense option"
  fC :: "Dense option"
  fD :: "Dense option"

definition NewFall ::
  "Dense option \<Rightarrow> Dense option \<Rightarrow> Dense option \<Rightarrow> Dense option \<Rightarrow> Fall result" where
  "NewFall a b c d = Returns \<lparr>fA = a, fB = b, fC = c, fD = d\<rparr>"

definition Fall_Dims :: "Fall \<Rightarrow> (nat \<times> nat) result" where
  "Fall_Dims b =
     rbind (Dense_Dims (fA b)) (\<lambda>(_, n_in).
     rbind (Dense_Dims (fD b)) (\<lambda>(out, _).
     Returns (n_in, out)))"

text \<open>
  \<^verbatim>\<open>outU.Mul(b.B, u)\<close> is unconditional here: with a nil \<open>B\<close> (or \<open>D\<close>) it panics.
\<close>

definition Fall_Propagate ::
  "Fall \<Rightarrow> real list option \<Rightarrow> real list option \<Rightarrow> real list option \<Rightarrow> real list result" where
  "Fall_Propagate b x u q =
     rbind (Fall_Dims b) (\<lambda>(n_in, n_out).
     rbind (Len u) (\<lambda>ul.
     if ul \<noteq> n_out then Fails InvalidInputVector
     else rbind (Len x) (\<lambda>xl.
       if xl \<noteq> n_in then Fails InvalidStateVector
       else rbind (Mul_ptr (fA b) (as_matrix (the x))) (\<lambda>out.
            rbind (Mul_ptr (fB b) (as_matrix (the u))) (\<lambda>outU.
            rbind (Add out outU) (\<lambda>out.
            rbind (add_noise q n_in out) (\<lambda>out.
            ColView out 0)))))))"

definition Fall_Observe ::
  "Fall \<Rightarrow> real list option \<Rightarrow> real list option \<Rightarrow> real list option \<Rightarrow> real list result" where
  "Fall_Observe b x u r =
     rbind (Fall_Dims b) (\<lambda>(n_in, n_out).
     rbind (Len u) (\<lambda>ul.
     if ul \<noteq> n_out then Fails InvalidInputVector
     else rbind (Len x) (\<lambda>xl.
       if xl \<noteq> n_in then Fails InvalidStateVector
       else rbind (Mul_ptr (fC b) (as_matrix (the x))) (\<lambda>out.
            rbind (Mul_ptr (fD b) (as_matrix (the u))) (\<lambda>outU.
            rbind (Add out outU) (\<lambda>out.
            rbind (add_noise r n_out out) (\<lambda>out.
            ColView out 0)))))))"

section \<open>Package rnd\<close>

text \<open>
  The package draws from the process-wide generators \<^verbatim>\<open>rand.NormFloat64\<close> and
  \<^verbatim>\<open>distuv.UnitUniform.Rand\<close>. A source of draws is a function from the number of
  the draw to its value. Go's \<^verbatim>\<open>int\<close> is \<open>int\<close>; which lengths
  \<^verbatim>\<open>make\<close> accepts is a matter of the run-time system, see \<open>make_ints\<close> below.
  A \<^verbatim>\<open>[]float64\<close> that may be nil is a \<open>real list option\<close>.
\<close>

type_synonym source = "nat \<Rightarrow> real"

definition const_source :: "real \<Rightarrow> source" where
  "const_source c i = c"

text \<open>\<^verbatim>\<open>floats.CumSum(dst, s)\<close> with \<open>dst\<close> of the length of \<open>s\<close>.\<close>

fun cumsum_from :: "real \<Rightarrow> real list \<Rightarrow> real list" where
  "cumsum_from acc [] = []"
| "cumsum_from acc (x # xs) = (acc + x) # cumsum_from (acc + x) xs"

definition CumSum :: "real list \<Rightarrow> real list" where
  "CumSum s = cumsum_from 0 s"

text \<open>
  \<^verbatim>\<open>sort.Search(n, f)\<close>, the binary search of the standard library:
  \<^verbatim>\<open>i, j := 0, n; for i < j { h := int(uint(i+j) >> 1); if !f(h) { i = h + 1 } else { j = h } }; return i\<close>
\<close>

function search_loop :: "(nat \<Rightarrow> bool) \<Rightarrow> nat \<Rightarrow> nat \<Rightarrow> nat" where
  "search_loop f i j =
     (if i < j then
        (let h = (i + j) div 2
         in if \<not> f h then search_loop f (h + 1) j else search_loop f i h)
      else i)"
  by pat_completeness auto
termination
  by (relation "measure (\<lambda>(f, i, j). j - i)") auto

declare search_loop.simps [simp del]

definition Search :: "nat \<Rightarrow> (nat \<Rightarrow> bool) \<Rightarrow> nat" where
  "Search n f = search_loop f 0 n"

text \<open>One pass of the loop body of \<^verbatim>\<open>RouletteDrawN\<close>, for draw number \<open>i\<close>.\<close>

definition draw_index :: "source \<Rightarrow> real list \<Rightarrow> nat \<Rightarrow> nat" where
  "draw_index unif cdf i =
     (let val = unif i * cdf ! (length cdf - 1)
      in Search (length cdf) (\<lambda>j. cdf ! j > val))"

text \<open>
  \<^verbatim>\<open>make([]int, n)\<close>. The run-time system refuses a negative length, and a length
  whose size in bytes overflows or exceeds its bound \<^verbatim>\<open>maxAlloc\<close>, with the panic
  ``makeslice: len out of range''; a length within that bound that the heap cannot
  serve ends the program with ``out of memory''. Both bounds belong to the platform
  and the moment of the call, so they are parameters: \<open>maxLen\<close> is \<^verbatim>\<open>maxAlloc\<close> divided
  by the size of an \<^verbatim>\<open>int\<close>, \<open>heapLen\<close> the longest \<^verbatim>\<open>[]int\<close> the heap can still hold.
  \<open>amd64_runtime\<close> is an instance: \<^verbatim>\<open>maxAlloc\<close> is \<open>2^48\<close> bytes on linux/amd64 and an
  \<^verbatim>\<open>int\<close> has 8 bytes; its heap has room for \<open>2^30\<close> of them.
\<close>

record runtime =
  maxLen :: nat
  heapLen :: nat

definition amd64_runtime :: runtime where
  "amd64_runtime = \<lparr>maxLen = 2 ^ 45, heapLen = 2 ^ 30\<rparr>"

definition make_ints :: "runtime \<Rightarrow> int \<Rightarrow> nat list result" where
  "make_ints rt n =
     (if n < 0 \<or> int (maxLen rt) < n then Panics MakesliceLen
      else if int (heapLen rt) < n then Panics OutOfMemory
      else Returns (replicate (nat n) 0))"

definition RouletteDrawN ::
  "runtime \<Rightarrow> source \<Rightarrow> real list option \<Rightarrow> int \<Rightarrow> nat list result" where
  "RouletteDrawN rt unif p n =
     (case p of
        None \<Rightarrow> Fails (InvalidWeights [])
      | Some ps \<Rightarrow>
          if length ps = 0 then Fails (InvalidWeights ps)
          else (let cdf = CumSum ps
                in rbind (make_ints rt n) (\<lambda>indices.
                   Returns (map (draw_index unif cdf) [0..<length indices]))))"

text \<open>
  \<^verbatim>\<open>WithCovN\<close>. The singular value decomposition is the library's; it is a parameter
  that yields \<open>None\<close> when \<^verbatim>\<open>Factorize\<close> reports failure and otherwise the matrix
  \<open>U\<close> and the singular values.
  The slice of the \<open>rows * n\<close> normal draws is taken to be allocated: were
  \<^verbatim>\<open>make\<close> to refuse it, the call would panic there, which changes none of the errors
  the function returns.
\<close>

type_synonym svd = "Dense \<Rightarrow> (Dense \<times> real list) option"

text \<open>\<^verbatim>\<open>mat.NewDiagonal(n, data)\<close> seen through the Matrix interface.\<close>

definition NewDiagonal :: "nat \<Rightarrow> real list \<Rightarrow> Dense" where
  "NewDiagonal n vals =
     \<lparr>Rows = n, Cols = n,
      Data = concat (map (\<lambda>i. map (\<lambda>j. if i = j then vals ! i else 0) [0..<n]) [0..<n])\<rparr>"

text \<open>\<^verbatim>\<open>mat.NewDense(r, c, data)\<close> with \<open>data\<close> of length \<open>r * c\<close>.\<close>

definition NewDense :: "nat \<Rightarrow> nat \<Rightarrow> real list \<Rightarrow> Dense result" where
  "NewDense r c xs =
     (if r = 0 \<or> c = 0 then Panics ErrZeroLength
      else if length xs \<noteq> r * c then Panics ErrShape
      else Returns \<lparr>Rows = r, Cols = c, Data = xs\<rparr>)"

definition WithCovN :: "svd \<Rightarrow> source \<Rightarrow> Dense option \<Rightarrow> int \<Rightarrow> Dense result" where
  "WithCovN factorize normal cov n =
     (if n \<le> 1 then Fails (InvalidSamples n)
      else case cov of
        None \<Rightarrow> Panics NilDereference
      | Some c \<Rightarrow>
         (case factorize c of
            None \<Rightarrow> Fails SVDFailed
          | Some (U, vals) \<Rightarrow>
              (let vals = map sqrt vals;
                   diag = NewDiagonal (length vals) vals
               in rbind (MulInto U U diag) (\<lambda>U.
                  let rows = Rows c;
                      data = map normal [0..<rows * nat n]
                  in rbind (NewDense rows (nat n) data) (\<lambda>samples.
                     MulInto samples U samples)))))"

section \<open>InitCond over an explicit store\<close>

text \<open>
  \<^verbatim>\<open>InitCond\<close> holds a \<^verbatim>\<open>*mat.VecDense\<close> and a \<^verbatim>\<open>*mat.SymDense\<close>, each a header
  over a backing slice. Who shares a backing slice with whom is what the accessors are
  about, so the slices live in a store: cell \<open>a\<close> of the store is the backing array
  allocated \<open>a\<close>-th, and a header names its array by that address.
  \<^verbatim>\<open>make([]float64, n)\<close> appends a zeroed cell.
\<close>

type_synonym addr = nat
type_synonym store = "real list list"

definition alloc :: "store \<Rightarrow> nat \<Rightarrow> addr \<times> store" where
  "alloc h n = (length h, h @ [replicate n 0])"

record VecDense =
  vN :: nat
  vData :: addr

record SymDense =
  sN :: nat
  sData :: addr

text \<open>What a reader of the vector, or of the symmetric matrix through \<^verbatim>\<open>At\<close>, sees.\<close>

definition vec_elems :: "store \<Rightarrow> VecDense \<Rightarrow> real list" where
  "vec_elems h v = take (vN v) (h ! vData v)"

definition sym_at :: "store \<Rightarrow> SymDense \<Rightarrow> nat \<Rightarrow> nat \<Rightarrow> real" where
  "sym_at h s i j =
     (if j < i then (h ! sData s) ! (j * sN s + i) else (h ! sData s) ! (i * sN s + j))"

definition sym_elems :: "store \<Rightarrow> SymDense \<Rightarrow> real list" where
  "sym_elems h s = map (\<lambda>k. sym_at h s (k div sN s) (k mod sN s)) [0..<sN s * sN s]"

text \<open>\<^verbatim>\<open>mat.NewVecDense(n, nil)\<close> and \<^verbatim>\<open>mat.NewSymDense(n, nil)\<close>.\<close>

definition NewVecDense :: "store \<Rightarrow> nat \<Rightarrow> VecDense result \<times> store" where
  "NewVecDense h n =
     (if n = 0 then (Panics ErrZeroLength, h)
      else (let (a, h') = alloc h n in (Returns \<lparr>vN = n, vData = a\<rparr>, h')))"

definition NewSymDense :: "store \<Rightarrow> nat \<Rightarrow> SymDense result \<times> store" where
  "NewSymDense h n =
     (if n = 0 then (Panics ErrZeroLength, h)
      else (let (a, h') = alloc h (n * n) in (Returns \<lparr>sN = n, sData = a\<rparr>, h')))"

text \<open>
  \<^verbatim>\<open>v.CopyVec(a)\<close> copies the first \<open>min (v.Len()) (a.Len())\<close> elements of \<open>a\<close> into
  the storage of \<open>v\<close>.
\<close>

definition CopyVec :: "store \<Rightarrow> VecDense \<Rightarrow> VecDense \<Rightarrow> store" where
  "CopyVec h v a =
     (let n = min (vN v) (vN a)
      in h[vData v := take n (h ! vData a) @ drop n (h ! vData v)])"

text \<open>
  \<^verbatim>\<open>v.CloneFromVec(a)\<close> (\<^verbatim>\<open>CloneVec\<close> in older releases of the library) gives \<open>v\<close>
  the length of \<open>a\<close>, reusing the backing slice of \<open>v\<close> when its capacity suffices
  and allocating otherwise, and copies \<open>a\<close> into it. The receiver is a header of its
  own in every call of the repository. \<open>CloneFromVec_empty\<close> is the call on the
  receiver \<^verbatim>\<open>&mat.VecDense{}\<close>, which has no backing slice yet.
\<close>

definition CloneFromVec :: "store \<Rightarrow> VecDense \<Rightarrow> VecDense \<Rightarrow> VecDense \<times> store" where
  "CloneFromVec h v a =
     (let n = vN a in
      if n \<le> length (h ! vData v)
      then (\<lparr>vN = n, vData = vData v\<rparr>,
            h[vData v := take n (h ! vData a) @ drop n (h ! vData v)])
      else (let (p, h') = alloc h n
            in (\<lparr>vN = n, vData = p\<rparr>, h'[p := take n (h' ! vData a) @ drop n (h' ! p)])))"

definition CloneFromVec_empty :: "store \<Rightarrow> VecDense \<Rightarrow> VecDense \<times> store" where
  "CloneFromVec_empty h a =
     (let n = vN a; (p, h') = alloc h n
      in (\<lparr>vN = n, vData = p\<rparr>, h'[p := take n (h' ! vData a) @ drop n (h' ! p)]))"

text \<open>
  \<^verbatim>\<open>s.CopySym(a)\<close> copies, for \<open>n = min (a.Symmetric()) (s.Symmetric())\<close>, the upper
  triangle of the leading \<open>n \<times> n\<close> block of \<open>a\<close> into the storage of \<open>s\<close>.
\<close>

definition CopySym :: "store \<Rightarrow> SymDense \<Rightarrow> SymDense \<Rightarrow> store" where
  "CopySym h s a =
     (let n = min (sN a) (sN s)
      in h[sData s :=
           map (\<lambda>k. let i = k div sN s; j = k mod sN s
                     in if i < n \<and> i \<le> j \<and> j < n then (h ! sData a) ! (i * sN a + j)
                        else (h ! sData s) ! k)
               [0..<length (h ! sData s)]])"

record InitCond =
  state :: VecDense
  cov :: SymDense

definition NewInitCond :: "store \<Rightarrow> VecDense \<Rightarrow> SymDense \<Rightarrow> InitCond result \<times> store" where
  "NewInitCond h st cv =
     (let (s, h1) = CloneFromVec_empty h st
      in case NewSymDense h1 (sN cv) of
           (Returns c, h2) \<Rightarrow> (Returns \<lparr>state = s, cov = c\<rparr>, CopySym h2 c cv)
         | (Fails e, h2) \<Rightarrow> (Fails e, h2)
         | (Panics p, h2) \<Rightarrow> (Panics p, h2))"

text \<open>\<^verbatim>\<open>State\<close> of package sim clones, \<^verbatim>\<open>State\<close> of package model copies.\<close>

definition sim_State :: "store \<Rightarrow> InitCond \<Rightarrow> VecDense result \<times> store" where
  "sim_State h c =
     (case NewVecDense h (vN (state c)) of
        (Returns v, h1) \<Rightarrow> (let (v', h2) = CloneFromVec h1 v (state c) in (Returns v', h2))
      | (Fails e, h1) \<Rightarrow> (Fails e, h1)
      | (Panics p, h1) \<Rightarrow> (Panics p, h1))"

definition model_State :: "store \<Rightarrow> InitCond \<Rightarrow> VecDense result \<times> store" where
  "model_State h c =
     (case NewVecDense h (vN (state c)) of
        (Returns v, h1) \<Rightarrow> (Returns v, CopyVec h1 v (state c))
      | (Fails e, h1) \<Rightarrow> (Fails e, h1)
      | (Panics p, h1) \<Rightarrow> (Panics p, h1))"

definition Cov :: "store \<Rightarrow> InitCond \<Rightarrow> SymDense result \<times> store" where
  "Cov h c =
     (case NewSymDense h (sN (cov c)) of
        (Returns m, h1) \<Rightarrow> (Returns m, CopySym h1 m (cov c))
      | (Fails e, h1) \<Rightarrow> (Fails e, h1)
      | (Panics p, h1) \<Rightarrow> (Panics p, h1))"

text \<open>
  A store with two cells and an initial condition over it: the state \<open>(1, 2)\<close> and
  the covariance with upper triangle \<open>1, 5; 1\<close> (the entry below the diagonal is not
  read). The results on the accessors are instantiated on it.
\<close>

definition example_store :: store where
  "example_store = [[1, 2], [1, 5, 7, 1]]"

definition example_cond :: InitCond where
  "example_cond = \<lparr>state = \<lparr>vN = 2, vData = 0\<rparr>, cov = \<lparr>sN = 2, sData = 1\<rparr>\<rparr>"


section \<open>The dimensional invariant of a model\<close>

text \<open>
  The invariant the specification states for the four matrices: \<open>A\<close> is square with
  side \<open>n\<close>; \<open>C\<close> has \<open>n\<close> columns and \<open>p\<close> rows; \<open>B\<close>, if present, has \<open>n\<close> rows
  and \<open>m\<close> columns, as many as \<open>D\<close> has; \<open>D\<close>, if present, has \<open>p\<close> rows. \<open>A\<close> and
  \<open>C\<close> are present. A matrix of the library that has been allocated has positive
  dimensions and as many entries as they say.
\<close>

definition wf_dense :: "Dense \<Rightarrow> bool" where
  "wf_dense m = (0 < Rows m \<and> 0 < Cols m \<and> length (Data m) = Rows m * Cols m)"

definition dims_ok ::
  "Dense option \<Rightarrow> Dense option \<Rightarrow> Dense option \<Rightarrow> Dense option \<Rightarrow> bool" where
  "dims_ok a b c d =
     (case (a, c) of
        (Some ma, Some mc) \<Rightarrow>
          wf_dense ma \<and> wf_dense mc \<and> Rows ma = Cols ma \<and> Cols mc = Rows ma \<and>
          (case b of None \<Rightarrow> True
           | Some mb \<Rightarrow> wf_dense mb \<and> Rows mb = Rows ma \<and>
               (case d of None \<Rightarrow> True | Some md \<Rightarrow> Cols md = Cols mb)) \<and>
          (case d of None \<Rightarrow> True | Some md \<Rightarrow> wf_dense md \<and> Rows md = Rows mc)
      | _ \<Rightarrow> False)"

section \<open>Auxiliary facts\<close>

lemma rbind_simps:
  "rbind (Returns v) f = f v" "rbind (Fails e) f = Fails e" "rbind (Panics p) f = Panics p"
  by (simp_all add: rbind_def)

lemma rbind_Fails_iff:
  "rbind r f = Fails e \<longleftrightarrow> r = Fails e \<or> (\<exists>v. r = Returns v \<and> f v = Fails e)"
  by (cases r) (simp_all add: rbind_def)

lemmas eval_defs =
  BaseModel_Propagate_def BaseModel_Observe_def Fall_Propagate_def Fall_Observe_def
  BaseModel_Dims_def Fall_Dims_def Dense_Dims_def Len_def Mul_ptr_def Mul_def Add_def
  ColView_def add_control_def add_noise_def as_matrix_def dot_def At_def rbind_simps

lemma MulInto_not_Fails: "MulInto m a b \<noteq> Fails e"
  by (simp add: MulInto_def)

lemma NewDense_not_Fails: "NewDense r c xs \<noteq> Fails e"
  by (simp add: NewDense_def)

subsection \<open>The errors of Propagate\<close>

text \<open>
  The library calls panic or return, they report no error. So the two checks at the
  head of \<^verbatim>\<open>Propagate\<close> decide alone when it returns an error: a present \<open>u\<close> is
  compared with the row count of \<open>C\<close> (of \<open>D\<close> in \<^verbatim>\<open>Fall\<close>), \<open>x\<close> with the column
  count of \<open>A\<close>. The column count of \<open>B\<close> is not looked at.
\<close>

lemma library_never_Fails:
  "Mul a b \<noteq> Fails e" "Mul_ptr m b \<noteq> Fails e" "Add a b \<noteq> Fails e" "ColView a j \<noteq> Fails e"
  by (simp_all add: Mul_def Mul_ptr_def Add_def ColView_def split: option.splits)

lemma optional_terms_never_Fail:
  "add_control m u out \<noteq> Fails e" "add_noise q n out \<noteq> Fails e"
  by (simp_all add: add_control_def add_noise_def rbind_Fails_iff library_never_Fails
      split: option.splits)

lemma BaseModel_Propagate_errors:
  assumes "bA b = Some a" and "bC b = Some c"
  shows "BaseModel_Propagate b x u q = Fails e \<longleftrightarrow>
           (\<exists>uv. u = Some uv \<and> length uv \<noteq> Rows c) \<and> e = InvalidInputVector \<or>
           (\<forall>uv. u = Some uv \<longrightarrow> length uv = Rows c) \<and>
           (\<exists>xv. x = Some xv \<and> length xv \<noteq> Cols a) \<and> e = InvalidStateVector"
  using assms
  by (cases u; cases x)
     (auto simp add: BaseModel_Propagate_def BaseModel_Dims_def Dense_Dims_def Len_def
        rbind_simps rbind_Fails_iff library_never_Fails optional_terms_never_Fail)

lemma Fall_Propagate_errors:
  assumes "fA b = Some a" and "fD b = Some d"
  shows "Fall_Propagate b x u q = Fails e \<longleftrightarrow>
           (\<exists>uv. u = Some uv \<and> length uv \<noteq> Rows d \<and> e = InvalidInputVector) \<or>
           (\<exists>uv xv. u = Some uv \<and> length uv = Rows d \<and> x = Some xv \<and> length xv \<noteq> Cols a \<and>
              e = InvalidStateVector)"
  using assms
  by (cases u; cases x)
     (auto simp add: Fall_Propagate_def Fall_Dims_def Dense_Dims_def Len_def
        rbind_simps rbind_Fails_iff library_never_Fails optional_terms_never_Fail)

subsection \<open>The binary search on a constant predicate\<close>

lemma search_loop_all_true:
  "(\<And>h. i \<le> h \<Longrightarrow> h < j \<Longrightarrow> f h) \<Longrightarrow> search_loop f i j = i"
proof (induction f i j rule: search_loop.induct)
  case (1 f i j)
  show ?case
  proof (cases "i < j")
    case True
    let ?h = "(i + j) div 2"
    from True have hb: "i \<le> ?h" "?h < j" by simp_all
    with "1.prems" have fh: "f ?h" by blast
    have "search_loop f i ?h = i"
      using "1.IH"(2) [OF True refl] fh "1.prems" hb by simp
    with True fh show ?thesis
      by (subst search_loop.simps) (simp add: Let_def)
  next
    case False
    then show ?thesis by (subst search_loop.simps) simp
  qed
qed

lemma search_loop_all_false:
  "(\<And>h. i \<le> h \<Longrightarrow> h < j \<Longrightarrow> \<not> f h) \<Longrightarrow> i \<le> j \<Longrightarrow> search_loop f i j = j"
proof (induction f i j rule: search_loop.induct)
  case (1 f i j)
  show ?case
  proof (cases "i < j")
    case True
    let ?h = "(i + j) div 2"
    from True have hb: "i \<le> ?h" "?h < j" by simp_all
    with "1.prems" have fh: "\<not> f ?h" by blast
    have "search_loop f (?h + 1) j = j"
      using "1.IH"(1) [OF True refl fh] "1.prems" hb by simp
    with True fh show ?thesis
      by (subst search_loop.simps) (simp add: Let_def)
  next
    case False
    with "1.prems" have "i = j" by simp
    then show ?thesis by (subst search_loop.simps) simp
  qed
qed

lemma draw_index_first:
  assumes "\<And>h. h < length cdf \<Longrightarrow> cdf ! h > unif i * cdf ! (length cdf - 1)"
  shows "draw_index unif cdf i = 0"
  unfolding draw_index_def Search_def Let_def
  by (rule search_loop_all_true) (use assms in simp)

lemma draw_index_past_end:
  assumes "\<And>h. h < length cdf \<Longrightarrow> \<not> cdf ! h > unif i * cdf ! (length cdf - 1)"
  shows "draw_index unif cdf i = length cdf"
  unfolding draw_index_def Search_def Let_def
  by (rule search_loop_all_false) (use assms in simp_all)

lemma map_upt_const: "(\<And>i. f i = c) \<Longrightarrow> map f [0..<k] = replicate k c"
  by (induction k) (simp_all add: replicate_append_same)

lemma cumsum_from_zeros: "cumsum_from 0 (replicate n 0) = replicate n 0"
  by (induction n) simp_all

subsection \<open>A matrix times a vector\<close>

lemma concat_singletons: "concat (map (\<lambda>i. [g i]) xs) = map g xs"
  by (induction xs) simp_all

lemma sum_list_upt: "sum_list (map g [0..<n]) = (\<Sum>k<n. g k)"
  by (induction n) simp_all

lemma Mul_vector:
  assumes "Cols a = length xs" and "0 < Rows a"
  shows "Mul a (as_matrix xs) =
         Returns \<lparr>Rows = Rows a, Cols = 1,
                  Data = map (\<lambda>i. \<Sum>k<Cols a. At a i k * xs ! k) [0..<Rows a]\<rparr>"
  using assms
  by (simp add: Mul_def as_matrix_def dot_def At_def concat_singletons sum_list_upt)

lemma ColView_column_vector:
  "ColView \<lparr>Rows = n, Cols = 1, Data = map g [0..<n]\<rparr> 0 = Returns (map g [0..<n])"
  by (simp add: ColView_def At_def cong: map_cong)

subsection \<open>The accessors of InitCond\<close>

lemma sym_elems_append: "sData s < length h \<Longrightarrow> sym_elems (h @ hs) s = sym_elems h s"
  by (simp add: sym_elems_def sym_at_def nth_append)

lemma sim_State_returns:
  assumes "vData (state c) < length h" and "0 < vN (state c)"
  shows "sim_State h c =
         (Returns \<lparr>vN = vN (state c), vData = length h\<rparr>, h @ [vec_elems h (state c)])"
  using assms
  by (simp add: sim_State_def NewVecDense_def alloc_def CloneFromVec_def Let_def vec_elems_def
      nth_append)

lemma model_State_returns:
  assumes "vData (state c) < length h" and "0 < vN (state c)"
  shows "model_State h c =
         (Returns \<lparr>vN = vN (state c), vData = length h\<rparr>, h @ [vec_elems h (state c)])"
  using assms
  by (simp add: model_State_def NewVecDense_def alloc_def CopyVec_def Let_def vec_elems_def
      nth_append)

lemma vec_elems_fresh:
  "vec_elems (h @ [vec_elems h v]) \<lparr>vN = vN v, vData = length h\<rparr> = vec_elems h v"
  by (simp add: vec_elems_def)

lemma index_bound: "i < n \<Longrightarrow> j < n \<Longrightarrow> i * n + j < n * (n::nat)"
proof -
  assume a: "i < n" "j < n"
  then have "i * n + j < i * n + n" by simp
  also have "\<dots> = Suc i * n" by simp
  also from a have "\<dots> \<le> n * n" by (metis Suc_leI mult.commute mult_le_mono2)
  finally show ?thesis .
qed

lemma Cov_returns:
  assumes "sData (cov c) < length h" and "0 < sN (cov c)"
  shows "Cov h c = (Returns \<lparr>sN = sN (cov c), sData = length h\<rparr>, h @ [map (\<lambda>k. if k div sN (cov c) \<le> k mod sN (cov c) then (h ! sData (cov c)) ! k else 0)
           [0..<sN (cov c) * sN (cov c)]])"
proof -
  let ?n = "sN (cov c)"
  have "k div ?n < ?n" if "k < ?n * ?n" for k
    using that by (simp add: less_mult_imp_div_less)
  moreover have "k mod ?n < ?n" for k
    using assms(2) by simp
  ultimately show ?thesis
    using assms
    by (simp add: Cov_def NewSymDense_def alloc_def CopySym_def Let_def
        nth_append cong: map_cong)
qed

lemma sym_elems_fresh:
  "sym_elems (h @ [map (\<lambda>k. if k div sN s \<le> k mod sN s then (h ! sData s) ! k else 0)
           [0..<sN s * sN s]]) \<lparr>sN = sN s, sData = length h\<rparr> = sym_elems h s"
proof -
  let ?n = "sN s"
  have "sym_at (h @ [map (\<lambda>k. if k div sN s \<le> k mod sN s then (h ! sData s) ! k else 0)
           [0..<sN s * sN s]]) \<lparr>sN = ?n, sData = length h\<rparr> i j = sym_at h s i j"
    if "i < ?n" "j < ?n" for i j
  proof (cases "j < i")
    case True
    with that have "j * ?n + i < ?n * ?n" by (simp add: index_bound)
    with True that show ?thesis
      by (simp add: sym_at_def)
  next
    case False
    with that have "i * ?n + j < ?n * ?n" by (simp add: index_bound)
    with False that show ?thesis
      by (simp add: sym_at_def)
  qed
  moreover have "k div ?n < ?n" if "k < ?n * ?n" for k
    using that by (simp add: less_mult_imp_div_less)
  moreover have "k mod ?n < ?n" if "k < ?n * ?n" for k
    using that by (cases "?n = 0") simp_all
  ultimately show ?thesis
    by (simp add: sym_elems_def)
qed


lemma vec_elems_frame:
  "vData v < length h \<Longrightarrow> take (length h) h' = h \<Longrightarrow> vec_elems h' v = vec_elems h v"
  by (metis nth_take vec_elems_def)

lemma sym_elems_frame:
  "sData s < length h \<Longrightarrow> take (length h) h' = h \<Longrightarrow> sym_elems h' s = sym_elems h s"
proof -
  assume "sData s < length h" and "take (length h) h' = h"
  then have "h' ! sData s = h ! sData s" by (metis nth_take)
  then show ?thesis by (simp add: sym_elems_def sym_at_def)
qed

lemma accessor_round:
  assumes "State \<in> {sim_State, model_State}"
    and "vData (state c) < length h" and "sData (cov c) < length h"
    and "0 < vN (state c)" and "0 < sN (cov c)"
  obtains v h1 m h2 where
    "State h c = (Returns v, h1)" "Cov h1 c = (Returns m, h2)"
    "vData v = length h" "sData m = Suc (length h)" "length h2 = Suc (Suc (length h))"
    "take (length h) h2 = h"
    "vec_elems h2 v = vec_elems h (state c)" "sym_elems h2 m = sym_elems h (cov c)"
proof -
  define v where "v = \<lparr>vN = vN (state c), vData = length h\<rparr>"
  define h1 where "h1 = h @ [vec_elems h (state c)]"
  define m where "m = \<lparr>sN = sN (cov c), sData = length h1\<rparr>"
  define h2 where "h2 = h1 @ [map (\<lambda>k. if k div sN (cov c) \<le> k mod sN (cov c) then (h1 ! sData (cov c)) ! k else 0)
           [0..<sN (cov c) * sN (cov c)]]"
  have len1: "length h1 = Suc (length h)" by (simp add: h1_def)
  have s: "State h c = (Returns v, h1)"
    using assms(1,2,4) sim_State_returns [of c h] model_State_returns [of c h]
    by (auto simp add: v_def h1_def)
  have c: "Cov h1 c = (Returns m, h2)"
    using assms(3,5) Cov_returns [of c h1] by (simp add: m_def h2_def len1)
  have t1: "take (length h1) h2 = h1" by (simp add: h2_def)
  have t0: "take (length h) h2 = h" by (simp add: h2_def h1_def)
  have "vec_elems h1 v = vec_elems h (state c)"
    using vec_elems_fresh [of h "state c"] by (simp add: v_def h1_def)
  moreover have "vData v < length h1" by (simp add: v_def len1)
  ultimately have ev: "vec_elems h2 v = vec_elems h (state c)"
    using vec_elems_frame [OF _ t1, of v] by simp
  have "sym_elems h2 m = sym_elems h1 (cov c)"
    using sym_elems_fresh [of h1 "cov c"] by (simp add: m_def h2_def)
  moreover have "sym_elems h1 (cov c) = sym_elems h (cov c)"
    using assms(3) by (simp add: h1_def sym_elems_append)
  ultimately have em: "sym_elems h2 m = sym_elems h (cov c)" by simp
  show thesis
    by (rule that [OF s c _ _ _ t0 ev em]) (simp_all add: v_def m_def len1 h2_def)
qed

text \<open>
  The constructor copies its arguments into cells of its own, so an initial condition
  it returns has its vector and matrix allocated in the store.
\<close>

lemma NewInitCond_allocates:
  assumes "vData st < length h" and "0 < sN cv"
  shows "\<exists>c h'. NewInitCond h st cv = (Returns c, h') \<and>
           vData (state c) = length h \<and> sData (cov c) = Suc (length h) \<and>
           length h' = Suc (Suc (length h)) \<and>
           vN (state c) = vN st \<and> sN (cov c) = sN cv \<and>
           vec_elems h' (state c) = vec_elems h st"
  using assms
  by (simp add: NewInitCond_def CloneFromVec_empty_def NewSymDense_def alloc_def CopySym_def
      Let_def vec_elems_def nth_append)

section \<open>The claims\<close>

text \<open>
  C1. The claim: \<^verbatim>\<open>Propagate\<close> returns an error exactly when the state vector has the
  wrong length or a present control vector \<open>u\<close> has a length other than the control
  dimension \<open>m\<close>, the column count of \<open>B\<close>, and never panics on such a \<open>u\<close>.
  Both variants compare the length of \<open>u\<close> with the output dimension instead. On the
  model below, which satisfies the dimensional invariant with \<open>n = 1\<close>, \<open>m = 2\<close>,
  \<open>p = 1\<close>, a control vector of length 1 passes the check and \<^verbatim>\<open>Mul\<close> panics on it,
  and a control vector of the right length 2 is rejected. \<open>BaseModel_Propagate_errors\<close>
  and \<open>Fall_Propagate_errors\<close> above give the condition of the error for every model.
\<close>

theorem Propagate_control_length_mismatch:
  "dims_ok (Some \<lparr>Rows = 1, Cols = 1, Data = [1]\<rparr>) (Some \<lparr>Rows = 1, Cols = 2, Data = [1, 1]\<rparr>)
           (Some \<lparr>Rows = 1, Cols = 1, Data = [1]\<rparr>) (Some \<lparr>Rows = 1, Cols = 2, Data = [0, 0]\<rparr>) \<and>
   BaseModel_Propagate
     \<lparr>bA = Some \<lparr>Rows = 1, Cols = 1, Data = [1]\<rparr>, bB = Some \<lparr>Rows = 1, Cols = 2, Data = [1, 1]\<rparr>,
      bC = Some \<lparr>Rows = 1, Cols = 1, Data = [1]\<rparr>, bD = Some \<lparr>Rows = 1, Cols = 2, Data = [0, 0]\<rparr>\<rparr>
     (Some [0]) (Some [5]) None = Panics ErrShape \<and>
   BaseModel_Propagate
     \<lparr>bA = Some \<lparr>Rows = 1, Cols = 1, Data = [1]\<rparr>, bB = Some \<lparr>Rows = 1, Cols = 2, Data = [1, 1]\<rparr>,
      bC = Some \<lparr>Rows = 1, Cols = 1, Data = [1]\<rparr>, bD = Some \<lparr>Rows = 1, Cols = 2, Data = [0, 0]\<rparr>\<rparr>
     (Some [0]) (Some [5, 6]) None = Fails InvalidInputVector \<and>
   Fall_Propagate
     \<lparr>fA = Some \<lparr>Rows = 1, Cols = 1, Data = [1]\<rparr>, fB = Some \<lparr>Rows = 1, Cols = 2, Data = [1, 1]\<rparr>,
      fC = Some \<lparr>Rows = 1, Cols = 1, Data = [1]\<rparr>, fD = Some \<lparr>Rows = 1, Cols = 2, Data = [0, 0]\<rparr>\<rparr>
     (Some [0]) (Some [5]) None = Panics ErrShape \<and>
   Fall_Propagate
     \<lparr>fA = Some \<lparr>Rows = 1, Cols = 1, Data = [1]\<rparr>, fB = Some \<lparr>Rows = 1, Cols = 2, Data = [1, 1]\<rparr>,
      fC = Some \<lparr>Rows = 1, Cols = 1, Data = [1]\<rparr>, fD = Some \<lparr>Rows = 1, Cols = 2, Data = [0, 0]\<rparr>\<rparr>
     (Some [0]) (Some [5, 6]) None = Fails InvalidInputVector"
  by (simp add: dims_ok_def wf_dense_def eval_defs)

text \<open>
  C2. \<^verbatim>\<open>WithCovN\<close> returns the error for an invalid sample count exactly when
  \<open>n \<le> 1\<close>, whatever the covariance (a nil one included). The only other error it
  returns is that of a failed factorization, and only for \<open>n > 1\<close>.
\<close>

theorem WithCovN_errors:
  "((\<exists>k. WithCovN factorize normal cv n = Fails (InvalidSamples k)) \<longleftrightarrow> n \<le> 1) \<and>
   (WithCovN factorize normal cv n = Fails e \<longleftrightarrow>
      n \<le> 1 \<and> e = InvalidSamples n \<or>
      1 < n \<and> e = SVDFailed \<and> (\<exists>c. cv = Some c \<and> factorize c = None))"
  by (auto simp add: WithCovN_def Let_def rbind_Fails_iff MulInto_not_Fails NewDense_not_Fails
      split: option.splits prod.splits)

theorem WithCovN_errors_witness:
  "WithCovN (\<lambda>c. None) (const_source 0) (Some \<lparr>Rows = 1, Cols = 1, Data = [1]\<rparr>) 1 = Fails (InvalidSamples 1) \<and>
   WithCovN (\<lambda>c. None) (const_source 0) (Some \<lparr>Rows = 1, Cols = 1, Data = [1]\<rparr>) 2 = Fails SVDFailed"
  using WithCovN_errors [of "\<lambda>c. None" "const_source 0" "Some \<lparr>Rows = 1, Cols = 1, Data = [1]\<rparr>" 1 "InvalidSamples 1"]
    WithCovN_errors [of "\<lambda>c. None" "const_source 0" "Some \<lparr>Rows = 1, Cols = 1, Data = [1]\<rparr>" 2 SVDFailed]
  by simp

text \<open>
  C3. For a \<^verbatim>\<open>BaseModel\<close> that satisfies the dimensional invariant and a state vector
  of length \<open>n\<close>, \<^verbatim>\<open>Propagate\<close> without control and noise returns the vector of length
  \<open>n\<close> whose \<open>i\<close>-th entry is \<open>\<Sum>k<n. A\<^sub>i\<^sub>k * x\<^sub>k\<close>, the product \<open>A\<cdot>x\<close>.
\<close>

theorem Propagate_autonomous:
  assumes "dims_ok (bA b) (bB b) (bC b) (bD b)" and "bA b = Some a" and "length xs = Rows a"
  shows "BaseModel_Propagate b (Some xs) None None =
         Returns (map (\<lambda>i. \<Sum>k<Rows a. At a i k * xs ! k) [0..<Rows a])"
proof -
  from assms(1,2) obtain c where c: "bC b = Some c"
    and sq: "Rows a = Cols a" and pos: "0 < Rows a"
    by (auto simp add: dims_ok_def wf_dense_def split: option.splits)
  have dims: "BaseModel_Dims b = Returns (Rows a, Rows c)"
    using assms(2) c sq by (simp add: BaseModel_Dims_def Dense_Dims_def rbind_simps)
  have mul: "Mul_ptr (bA b) (as_matrix xs) =
      Returns \<lparr>Rows = Rows a, Cols = 1,
               Data = map (\<lambda>i. \<Sum>k<Rows a. At a i k * xs ! k) [0..<Rows a]\<rparr>"
    using Mul_vector [of a xs] assms(2,3) sq pos by (simp add: Mul_ptr_def)
  show ?thesis
    using ColView_column_vector [of "Rows a" "\<lambda>i. \<Sum>k<Rows a. At a i k * xs ! k"]
    by (simp add: BaseModel_Propagate_def dims Len_def mul assms(3) add_control_def
        add_noise_def rbind_simps)
qed

theorem Propagate_autonomous_witness:
  "dims_ok (Some \<lparr>Rows = 2, Cols = 2, Data = [1, 2, 3, 4]\<rparr>) None
           (Some \<lparr>Rows = 1, Cols = 2, Data = [1, 0]\<rparr>) None \<and>
   BaseModel_Propagate
     \<lparr>bA = Some \<lparr>Rows = 2, Cols = 2, Data = [1, 2, 3, 4]\<rparr>, bB = None,
      bC = Some \<lparr>Rows = 1, Cols = 2, Data = [1, 0]\<rparr>, bD = None\<rparr>
     (Some [1, 1]) None None = Returns [3, 7]"
  using Propagate_autonomous
    [of "\<lparr>bA = Some \<lparr>Rows = 2, Cols = 2, Data = [1, 2, 3, 4]\<rparr>, bB = None,
          bC = Some \<lparr>Rows = 1, Cols = 2, Data = [1, 0]\<rparr>, bD = None\<rparr>"
        "\<lparr>Rows = 2, Cols = 2, Data = [1, 2, 3, 4]\<rparr>" "[1, 1]"]
  by (simp add: dims_ok_def wf_dense_def At_def upt_conv_Cons lessThan_Suc numeral_2_eq_2)

text \<open>
  C4. The claim: \<^verbatim>\<open>RouletteDrawN\<close> returns an error exactly when \<open>p\<close> is nil or empty,
  and a result for every non-empty \<open>p\<close>, for every count. The first half holds for
  every count. The count itself is never checked, it goes into \<^verbatim>\<open>make([]int, n)\<close>: a
  non-empty \<open>p\<close> gives a result, of \<open>n\<close> indices, exactly when that allocation
  succeeds, that is when \<open>n\<close> is not negative, not above the bound of the run-time
  system and not more than the heap can hold. Otherwise the call panics. With the
  count \<open>-1\<close> it panics, and with the count \<open>2^62\<close> too.
\<close>

theorem RouletteDrawN_errors:
  "((\<exists>e. RouletteDrawN rt unif p n = Fails e) \<longleftrightarrow> p = None \<or> p = Some []) \<and>
   (\<forall>ps. p = Some ps \<and> ps \<noteq> [] \<longrightarrow>
      ((\<exists>idx. RouletteDrawN rt unif p n = Returns idx) \<longleftrightarrow>
         0 \<le> n \<and> n \<le> int (maxLen rt) \<and> n \<le> int (heapLen rt)) \<and>
      (\<forall>idx. RouletteDrawN rt unif p n = Returns idx \<longrightarrow> length idx = nat n) \<and>
      (n < 0 \<or> int (maxLen rt) < n \<or> int (heapLen rt) < n \<longrightarrow>
         (\<exists>q. RouletteDrawN rt unif p n = Panics q)))"
  by (auto simp add: RouletteDrawN_def make_ints_def Let_def rbind_simps split: option.splits)

theorem RouletteDrawN_errors_witness:
  "RouletteDrawN amd64_runtime (const_source 0) (Some [1, 2]) 2 = Returns [0, 0] \<and>
   RouletteDrawN amd64_runtime (const_source 0) (Some []) 2 = Fails (InvalidWeights []) \<and>
   RouletteDrawN amd64_runtime (const_source 0) None 2 = Fails (InvalidWeights [])"
  using RouletteDrawN_errors [of amd64_runtime "const_source 0" "Some [1, 2]" 2]
  by (simp add: RouletteDrawN_def make_ints_def amd64_runtime_def rbind_simps CumSum_def
      draw_index_def Search_def const_source_def search_loop.simps upt_conv_Cons
      numeral_2_eq_2)

theorem RouletteDrawN_bad_count:
  "RouletteDrawN amd64_runtime (const_source 0) (Some [1]) (- 1) = Panics MakesliceLen \<and>
   RouletteDrawN amd64_runtime (const_source 0) (Some [1]) (2 ^ 62) = Panics MakesliceLen"
  by (simp add: RouletteDrawN_def make_ints_def amd64_runtime_def rbind_simps)

text \<open>
  C5. The claim: with the weights \<open>[1, 0, 0]\<close>, every count \<open>k \<ge> 1\<close> and uniform
  draws from \<open>[0, 1)\<close>, \<^verbatim>\<open>RouletteDrawN\<close> returns \<open>k\<close> indices, each of them 0. It
  does so for every \<open>k \<ge> 1\<close> for which \<^verbatim>\<open>make([]int, k)\<close> succeeds. A count above
  the bound of the run-time system, such as \<open>2^62\<close>, makes the call panic before any
  index is drawn.
\<close>

theorem RouletteDrawN_unit_weight:
  assumes "1 \<le> k" and "k \<le> int (maxLen rt)" and "k \<le> int (heapLen rt)"
    and "\<forall>i. 0 \<le> unif i \<and> unif i < 1"
  shows "RouletteDrawN rt unif (Some [1, 0, 0]) k = Returns (replicate (nat k) 0)"
proof -
  have "draw_index unif [1, 1, 1] i = 0" for i
  proof (rule draw_index_first)
    fix h :: nat
    assume "h < length [1, 1, 1 :: real]"
    then have "[1, 1, 1 :: real] ! h = 1"
      by (cases h) (auto simp: less_Suc_eq nth_Cons')
    with assms(4) show "[1, 1, 1] ! h > unif i * [1, 1, 1] ! (length [1, 1, 1 :: real] - 1)"
      by simp
  qed
  then have "map (draw_index unif [1, 1, 1]) [0..<nat k] = replicate (nat k) 0"
    by (rule map_upt_const)
  with assms(1,2,3) show ?thesis
    by (simp add: RouletteDrawN_def make_ints_def rbind_simps CumSum_def)
qed

theorem RouletteDrawN_unit_weight_witness:
  "(1::int) \<le> 2 \<and> 2 \<le> int (maxLen amd64_runtime) \<and> 2 \<le> int (heapLen amd64_runtime) \<and>
   (\<forall>i. 0 \<le> const_source (1 / 2) i \<and> const_source (1 / 2) i < 1) \<and>
   RouletteDrawN amd64_runtime (const_source (1 / 2)) (Some [1, 0, 0]) 2 = Returns [0, 0]"
  using RouletteDrawN_unit_weight [of 2 amd64_runtime "const_source (1 / 2)"]
  by (simp add: const_source_def amd64_runtime_def numeral_2_eq_2)

theorem RouletteDrawN_unit_weight_huge_count:
  "(1::int) \<le> 2 ^ 62 \<and>
   (\<forall>i. 0 \<le> const_source (1 / 2) i \<and> const_source (1 / 2) i < 1) \<and>
   RouletteDrawN amd64_runtime (const_source (1 / 2)) (Some [1, 0, 0]) (2 ^ 62) =
     Panics MakesliceLen"
  by (simp add: RouletteDrawN_def make_ints_def amd64_runtime_def rbind_simps const_source_def)

text \<open>
  C6. The claim: on weights that are all zero \<^verbatim>\<open>RouletteDrawN\<close> returns an error or
  indices of \<open>p\<close>. It returns neither: for \<open>L \<ge> 1\<close> zero weights every draw is
  \<open>L\<close>, the length of \<open>p\<close>, whatever the uniform source gives, since no entry of the
  cumulative sums exceeds 0 and the search then returns its upper bound. This is so
  for every count \<open>k\<close> whose slice of indices can be allocated; for \<open>p = [0, 0]\<close> and
  the count 1 the result is \<open>[2]\<close>.
\<close>

theorem RouletteDrawN_zero_weights:
  assumes "k \<le> maxLen rt" and "k \<le> heapLen rt"
  shows "RouletteDrawN rt unif (Some (replicate (Suc l) 0)) (int k) =
         Returns (replicate k (Suc l))"
proof -
  have "draw_index unif (replicate (Suc l) 0) i = Suc l" for i
    using draw_index_past_end [of "replicate (Suc l) 0" unif i]
    by (simp del: replicate_Suc)
  then have "map (draw_index unif (replicate (Suc l) 0)) [0..<k] = replicate k (Suc l)"
    by (rule map_upt_const)
  with assms show ?thesis
    by (simp add: RouletteDrawN_def make_ints_def rbind_simps CumSum_def cumsum_from_zeros
        del: replicate_Suc)
qed

theorem RouletteDrawN_zero_weights_witness:
  "1 \<le> maxLen amd64_runtime \<and> 1 \<le> heapLen amd64_runtime \<and>
   RouletteDrawN amd64_runtime (const_source (1 / 2)) (Some [0, 0]) 1 = Returns [2]"
  using RouletteDrawN_zero_weights [of 1 amd64_runtime "const_source (1 / 2)" 1]
  by (simp add: amd64_runtime_def numeral_2_eq_2)

text \<open>
  C7. The claim: construction validates dimensions and returns an error for some
  inputs that violate the invariant. \<^verbatim>\<open>NewBaseModel\<close> and \<^verbatim>\<open>NewFall\<close> check nothing:
  for all four arguments they return the model that holds them, and never an error.
\<close>

theorem constructors_never_fail:
  "NewBaseModel a b c d = Returns \<lparr>bA = a, bB = b, bC = c, bD = d\<rparr> \<and>
   NewFall a b c d = Returns \<lparr>fA = a, fB = b, fC = c, fD = d\<rparr>"
  by (simp add: NewBaseModel_def NewFall_def)

theorem constructors_no_error:
  "\<not> (\<exists>a b c d e. NewBaseModel a b c d = Fails e \<or> NewFall a b c d = Fails e)"
  by (simp add: NewBaseModel_def NewFall_def)

text \<open>
  C8. The claim: for every model that satisfies the dimensional invariant,
  \<^verbatim>\<open>Dims\<close> returns \<open>(n, p)\<close>, the row counts of \<open>A\<close> and of \<open>C\<close>. This holds for
  \<^verbatim>\<open>BaseModel\<close>. \<^verbatim>\<open>Fall.Dims\<close> reads the row count of \<open>D\<close>, which the invariant makes
  equal to that of \<open>C\<close> when \<open>D\<close> is present; the invariant allows an absent \<open>D\<close>,
  and then \<^verbatim>\<open>Fall.Dims\<close> panics.
\<close>

theorem Dims_under_invariant:
  "(dims_ok (bA b) (bB b) (bC b) (bD b) \<longrightarrow>
      BaseModel_Dims b = Returns (Rows (the (bA b)), Rows (the (bC b)))) \<and>
   (dims_ok (fA f) (fB f) (fC f) (fD f) \<and> fD f \<noteq> None \<longrightarrow>
      Fall_Dims f = Returns (Rows (the (fA f)), Rows (the (fC f))))"
  by (auto simp add: dims_ok_def BaseModel_Dims_def Fall_Dims_def Dense_Dims_def rbind_simps
      split: option.splits)

theorem Dims_under_invariant_witness:
  "dims_ok (Some \<lparr>Rows = 2, Cols = 2, Data = [1, 2, 3, 4]\<rparr>) None
           (Some \<lparr>Rows = 1, Cols = 2, Data = [1, 0]\<rparr>)
           (Some \<lparr>Rows = 1, Cols = 3, Data = [0, 0, 0]\<rparr>) \<and>
   BaseModel_Dims \<lparr>bA = Some \<lparr>Rows = 2, Cols = 2, Data = [1, 2, 3, 4]\<rparr>, bB = None,
                   bC = Some \<lparr>Rows = 1, Cols = 2, Data = [1, 0]\<rparr>,
                   bD = Some \<lparr>Rows = 1, Cols = 3, Data = [0, 0, 0]\<rparr>\<rparr> = Returns (2, 1) \<and>
   Fall_Dims \<lparr>fA = Some \<lparr>Rows = 2, Cols = 2, Data = [1, 2, 3, 4]\<rparr>, fB = None,
              fC = Some \<lparr>Rows = 1, Cols = 2, Data = [1, 0]\<rparr>,
              fD = Some \<lparr>Rows = 1, Cols = 3, Data = [0, 0, 0]\<rparr>\<rparr> = Returns (2, 1)"
  using Dims_under_invariant
    [of "\<lparr>bA = Some \<lparr>Rows = 2, Cols = 2, Data = [1, 2, 3, 4]\<rparr>, bB = None,
          bC = Some \<lparr>Rows = 1, Cols = 2, Data = [1, 0]\<rparr>,
          bD = Some \<lparr>Rows = 1, Cols = 3, Data = [0, 0, 0]\<rparr>\<rparr>"
        "\<lparr>fA = Some \<lparr>Rows = 2, Cols = 2, Data = [1, 2, 3, 4]\<rparr>, fB = None,
          fC = Some \<lparr>Rows = 1, Cols = 2, Data = [1, 0]\<rparr>,
          fD = Some \<lparr>Rows = 1, Cols = 3, Data = [0, 0, 0]\<rparr>\<rparr>"]
  by (simp add: dims_ok_def wf_dense_def)

theorem Fall_Dims_absent_D:
  "dims_ok (Some \<lparr>Rows = 1, Cols = 1, Data = [1]\<rparr>) None (Some \<lparr>Rows = 1, Cols = 1, Data = [1]\<rparr>) None \<and>
   Fall_Dims \<lparr>fA = Some \<lparr>Rows = 1, Cols = 1, Data = [1]\<rparr>, fB = None, fC = Some \<lparr>Rows = 1, Cols = 1, Data = [1]\<rparr>, fD = None\<rparr> = Panics NilDereference"
  by (simp add: dims_ok_def wf_dense_def Fall_Dims_def Dense_Dims_def rbind_simps)

text \<open>
  C9. \<^verbatim>\<open>State\<close> and \<^verbatim>\<open>Cov\<close> return independent copies on every call. For an initial
  condition whose vector and matrix are allocated in the store and have positive
  dimension, and for \<^verbatim>\<open>State\<close> of either package: two rounds of calls return; the four
  values returned have backing arrays that differ from each other and from the two
  internal ones; each value reads as the internal state, resp. covariance. After the
  caller overwrites the backing arrays of the second round's results with anything,
  the internal state and covariance and the first round's results read as before,
  and so do they, and the results of a later round of calls, after those calls.
\<close>

theorem InitCond_accessors_independent:
  assumes acc: "State \<in> {sim_State, model_State}"
    and own: "vData (state c) < length h" "sData (cov c) < length h"
    and pos: "0 < vN (state c)" "0 < sN (cov c)"
  shows "\<exists>v1 ha m1 hb v2 hc m2 hd.
      State h c = (Returns v1, ha) \<and> Cov ha c = (Returns m1, hb) \<and>
      State hb c = (Returns v2, hc) \<and> Cov hc c = (Returns m2, hd) \<and>
      vData (state c) \<notin> {vData v1, sData m1, vData v2, sData m2} \<and>
      sData (cov c) \<notin> {vData v1, sData m1, vData v2, sData m2} \<and>
      distinct [vData v1, sData m1, vData v2, sData m2] \<and>
      vec_elems hd v1 = vec_elems h (state c) \<and> sym_elems hd m1 = sym_elems h (cov c) \<and>
      vec_elems hd v2 = vec_elems h (state c) \<and> sym_elems hd m2 = sym_elems h (cov c) \<and>
      (\<forall>ys zs. \<exists>v3 he m3 hf.
         State (hd[vData v2 := ys, sData m2 := zs]) c = (Returns v3, he) \<and>
         Cov he c = (Returns m3, hf) \<and>
         vData v3 \<notin> {vData (state c), sData (cov c), vData v1, sData m1} \<and>
         sData m3 \<notin> {vData (state c), sData (cov c), vData v1, sData m1} \<and>
         vec_elems (hd[vData v2 := ys, sData m2 := zs]) (state c) = vec_elems h (state c) \<and>
         sym_elems (hd[vData v2 := ys, sData m2 := zs]) (cov c) = sym_elems h (cov c) \<and>
         vec_elems (hd[vData v2 := ys, sData m2 := zs]) v1 = vec_elems h (state c) \<and>
         sym_elems (hd[vData v2 := ys, sData m2 := zs]) m1 = sym_elems h (cov c) \<and>
         vec_elems hf (state c) = vec_elems h (state c) \<and>
         sym_elems hf (cov c) = sym_elems h (cov c) \<and>
         vec_elems hf v1 = vec_elems h (state c) \<and> sym_elems hf m1 = sym_elems h (cov c) \<and>
         vec_elems hf v3 = vec_elems h (state c) \<and> sym_elems hf m3 = sym_elems h (cov c))"
proof -
  obtain v1 ha m1 hb where r1:
    "State h c = (Returns v1, ha)" "Cov ha c = (Returns m1, hb)"
    "vData v1 = length h" "sData m1 = Suc (length h)" "length hb = Suc (Suc (length h))"
    "take (length h) hb = h"
    "vec_elems hb v1 = vec_elems h (state c)" "sym_elems hb m1 = sym_elems h (cov c)"
    by (rule accessor_round [OF acc own pos])
  have ownb: "vData (state c) < length hb" "sData (cov c) < length hb"
    using own r1(5) by simp_all
  have intb: "vec_elems hb (state c) = vec_elems h (state c)"
    "sym_elems hb (cov c) = sym_elems h (cov c)"
    by (rule vec_elems_frame [OF own(1) r1(6)], rule sym_elems_frame [OF own(2) r1(6)])
  obtain v2 hc m2 hd where r2:
    "State hb c = (Returns v2, hc)" "Cov hc c = (Returns m2, hd)"
    "vData v2 = length hb" "sData m2 = Suc (length hb)" "length hd = Suc (Suc (length hb))"
    "take (length hb) hd = hb"
    "vec_elems hd v2 = vec_elems hb (state c)" "sym_elems hd m2 = sym_elems hb (cov c)"
    by (rule accessor_round [OF acc ownb pos])
  have inb: "vData v1 < length hb" "sData m1 < length hb"
    using r1(3,4,5) by simp_all
  have earlier_d: "vec_elems hd v1 = vec_elems h (state c)" "sym_elems hd m1 = sym_elems h (cov c)"
    using vec_elems_frame [OF inb(1) r2(6)] sym_elems_frame [OF inb(2) r2(6)] r1(7,8)
    by simp_all
  have noalias:
    "vData (state c) \<notin> {vData v1, sData m1, vData v2, sData m2}"
    "sData (cov c) \<notin> {vData v1, sData m1, vData v2, sData m2}"
    "distinct [vData v1, sData m1, vData v2, sData m2]"
    using own r1(3,4,5) r2(3,4) by auto
  have later: "\<exists>v3 he m3 hf.
         State (hd[vData v2 := ys, sData m2 := zs]) c = (Returns v3, he) \<and>
         Cov he c = (Returns m3, hf) \<and>
         vData v3 \<notin> {vData (state c), sData (cov c), vData v1, sData m1} \<and>
         sData m3 \<notin> {vData (state c), sData (cov c), vData v1, sData m1} \<and>
         vec_elems (hd[vData v2 := ys, sData m2 := zs]) (state c) = vec_elems h (state c) \<and>
         sym_elems (hd[vData v2 := ys, sData m2 := zs]) (cov c) = sym_elems h (cov c) \<and>
         vec_elems (hd[vData v2 := ys, sData m2 := zs]) v1 = vec_elems h (state c) \<and>
         sym_elems (hd[vData v2 := ys, sData m2 := zs]) m1 = sym_elems h (cov c) \<and>
         vec_elems hf (state c) = vec_elems h (state c) \<and>
         sym_elems hf (cov c) = sym_elems h (cov c) \<and>
         vec_elems hf v1 = vec_elems h (state c) \<and> sym_elems hf m1 = sym_elems h (cov c) \<and>
         vec_elems hf v3 = vec_elems h (state c) \<and> sym_elems hf m3 = sym_elems h (cov c)"
    for ys zs
  proof -
    define hm where "hm = hd[vData v2 := ys, sData m2 := zs]"
    have lenm: "length hm = length hd" by (simp add: hm_def)
    have tm: "take (length hb) hm = hb"
      using r2(3,4,6) by (simp add: hm_def)
    have ownm: "vData (state c) < length hm" "sData (cov c) < length hm"
      using ownb r2(5) lenm by simp_all
    have intm: "vec_elems hm (state c) = vec_elems h (state c)"
      "sym_elems hm (cov c) = sym_elems h (cov c)"
      using vec_elems_frame [OF ownb(1) tm] sym_elems_frame [OF ownb(2) tm] intb
      by simp_all
    have earlier_m: "vec_elems hm v1 = vec_elems h (state c)"
      "sym_elems hm m1 = sym_elems h (cov c)"
      using vec_elems_frame [OF inb(1) tm] sym_elems_frame [OF inb(2) tm] r1(7,8)
      by simp_all
    obtain v3 he m3 hf where r3:
      "State hm c = (Returns v3, he)" "Cov he c = (Returns m3, hf)"
      "vData v3 = length hm" "sData m3 = Suc (length hm)" "length hf = Suc (Suc (length hm))"
      "take (length hm) hf = hm"
      "vec_elems hf v3 = vec_elems hm (state c)" "sym_elems hf m3 = sym_elems hm (cov c)"
      by (rule accessor_round [OF acc ownm pos])
    have inm: "vData v1 < length hm" "sData m1 < length hm"
      using inb r2(5) lenm by simp_all
    have intf: "vec_elems hf (state c) = vec_elems h (state c)"
      "sym_elems hf (cov c) = sym_elems h (cov c)"
      using vec_elems_frame [OF ownm(1) r3(6)] sym_elems_frame [OF ownm(2) r3(6)] intm
      by simp_all
    have earlier_f: "vec_elems hf v1 = vec_elems h (state c)"
      "sym_elems hf m1 = sym_elems h (cov c)"
      using vec_elems_frame [OF inm(1) r3(6)] sym_elems_frame [OF inm(2) r3(6)] earlier_m
      by simp_all
    have fresh3: "vData v3 \<notin> {vData (state c), sData (cov c), vData v1, sData m1}"
      "sData m3 \<notin> {vData (state c), sData (cov c), vData v1, sData m1}"
      using ownm inm r3(3,4) by auto
    have copies: "vec_elems hf v3 = vec_elems h (state c)" "sym_elems hf m3 = sym_elems h (cov c)"
      using r3(7,8) intm by simp_all
    show ?thesis
      unfolding hm_def [symmetric]
      apply (rule exI [of _ v3], rule exI [of _ he], rule exI [of _ m3], rule exI [of _ hf])
      apply (intro conjI)
      using r3(1,2) fresh3 intm earlier_m intf earlier_f copies apply simp_all
      done
  qed
  have copies_d: "vec_elems hd v2 = vec_elems h (state c)" "sym_elems hd m2 = sym_elems h (cov c)"
    using r2(7,8) intb by simp_all
  show ?thesis
    apply (rule exI [of _ v1], rule exI [of _ ha], rule exI [of _ m1], rule exI [of _ hb])
    apply (rule exI [of _ v2], rule exI [of _ hc], rule exI [of _ m2], rule exI [of _ hd])
    apply (intro conjI allI later)
    using r1(1,2) r2(1,2) noalias earlier_d copies_d apply simp_all
    done
qed

theorem InitCond_accessors_independent_witness:
  "sim_State \<in> {sim_State, model_State} \<and>
   vData (state example_cond) < length example_store \<and>
   sData (cov example_cond) < length example_store \<and>
   0 < vN (state example_cond) \<and> 0 < sN (cov example_cond) \<and>
   vec_elems example_store (state example_cond) = [1, 2] \<and>
   sym_elems example_store (cov example_cond) = [1, 5, 5, 1] \<and>
   (\<exists>v1 ha m1 hb v2 hc m2 hd.
   sim_State example_store example_cond = (Returns v1, ha) \<and> Cov ha example_cond = (Returns m1, hb) \<and>
   sim_State hb example_cond = (Returns v2, hc) \<and> Cov hc example_cond = (Returns m2, hd) \<and>
   vData (state example_cond) \<notin> {vData v1, sData m1, vData v2, sData m2} \<and>
   sData (cov example_cond) \<notin> {vData v1, sData m1, vData v2, sData m2} \<and>
   distinct [vData v1, sData m1, vData v2, sData m2] \<and>
   vec_elems hd v1 = vec_elems example_store (state example_cond) \<and> sym_elems hd m1 = sym_elems example_store (cov example_cond) \<and>
   vec_elems hd v2 = vec_elems example_store (state example_cond) \<and> sym_elems hd m2 = sym_elems example_store (cov example_cond) \<and>
   (\<forall>ys zs. \<exists>v3 he m3 hf.
   sim_State (hd[vData v2 := ys, sData m2 := zs]) example_cond = (Returns v3, he) \<and>
   Cov he example_cond = (Returns m3, hf) \<and>
   vData v3 \<notin> {vData (state example_cond), sData (cov example_cond), vData v1, sData m1} \<and>
   sData m3 \<notin> {vData (state example_cond), sData (cov example_cond), vData v1, sData m1} \<and>
   vec_elems (hd[vData v2 := ys, sData m2 := zs]) (state example_cond) = vec_elems example_store (state example_cond) \<and>
   sym_elems (hd[vData v2 := ys, sData m2 := zs]) (cov example_cond) = sym_elems example_store (cov example_cond) \<and>
   vec_elems (hd[vData v2 := ys, sData m2 := zs]) v1 = vec_elems example_store (state example_cond) \<and>
   sym_elems (hd[vData v2 := ys, sData m2 := zs]) m1 = sym_elems example_store (cov example_cond) \<and>
   vec_elems hf (state example_cond) = vec_elems example_store (state example_cond) \<and>
   sym_elems hf (cov example_cond) = sym_elems example_store (cov example_cond) \<and>
   vec_elems hf v1 = vec_elems example_store (state example_cond) \<and> sym_elems hf m1 = sym_elems example_store (cov example_cond) \<and>
   vec_elems hf v3 = vec_elems example_store (state example_cond) \<and> sym_elems hf m3 = sym_elems example_store (cov example_cond)))"
proof -
  have p1: "sim_State \<in> {sim_State, model_State}" by simp
  have p2: "vData (state example_cond) < length example_store"
    by (simp add: example_cond_def example_store_def)
  have p3: "sData (cov example_cond) < length example_store"
    by (simp add: example_cond_def example_store_def)
  have p4: "0 < vN (state example_cond)" by (simp add: example_cond_def)
  have p5: "0 < sN (cov example_cond)" by (simp add: example_cond_def)
  have e1: "vec_elems example_store (state example_cond) = [1, 2]"
    by (simp add: vec_elems_def example_cond_def example_store_def)
  have e2: "sym_elems example_store (cov example_cond) = [1, 5, 5, 1]"
    by (simp add: sym_elems_def sym_at_def upt_conv_Cons example_cond_def example_store_def)
  show ?thesis
    by (intro conjI p1 p2 p3 p4 p5 e1 e2 InitCond_accessors_independent [OF p1 p2 p3 p4 p5])
qed

text \<open>
  C10. In the \<^verbatim>\<open>Fall\<close> variant \<^verbatim>\<open>Propagate\<close> and \<^verbatim>\<open>Observe\<close> read the length of \<open>u\<close>
  without a nil check: with \<open>u\<close> absent they panic on the nil dereference, for every
  model, state and noise, and return neither a vector nor an error.
\<close>

theorem Fall_nil_control_panics:
  "Fall_Propagate b x None q = Panics NilDereference \<and>
   Fall_Observe b x None r = Panics NilDereference"
  by (simp add: Fall_Propagate_def Fall_Observe_def Fall_Dims_def Dense_Dims_def Len_def
      rbind_def split: option.splits result.splits prod.splits)

end
